theory Spec2Isabelle
  imports Main "HOL-Library.Word"
begin

section \<open>Tensor dialect operations (TensorOps.cpp): types and shapes\<close>

text \<open>
  The types an SSA value can have. \<open>RankedTensorType\<close> carries the shape as the list of
  its 64-bit extents and the element type; the optional encoding attribute is left out
  (no function below reads it). A C++ \<open>TensorType\<close> is a \<open>Type\<close> built with one of the two
  tensor constructors; a null \<open>Type\<close> handle is \<open>None\<close> of \<open>Type option\<close>.
\<close>

datatype Type =
    IndexType
  | IntegerType nat
  | FloatType nat
  | RankedTensorType (getShape: "int list") (getElementType: Type)
  | UnrankedTensorType (getElementType: Type)

text \<open>
  Modelled from the spec: \<open>ShapedType::kDynamic\<close> and \<open>ShapedType::isDynamic\<close> are declared
  outside TensorOps.cpp. The spec describes an extent as "either a nonnegative static size
  or a sentinel marking unknown at compile time"; the sentinel is the least 64-bit integer.
\<close>

definition kDynamic :: int where
  "kDynamic = - (2 ^ 63)"

definition isDynamic :: "int \<Rightarrow> bool" where
  "isDynamic d = (d = kDynamic)"

definition isTensorType :: "Type \<Rightarrow> bool" where
  "isTensorType t = (case t of RankedTensorType _ _ \<Rightarrow> True | UnrankedTensorType _ \<Rightarrow> True | _ \<Rightarrow> False)"

definition hasRank :: "Type \<Rightarrow> bool" where
  "hasRank t = (case t of RankedTensorType _ _ \<Rightarrow> True | _ \<Rightarrow> False)"


definition hasStaticShape :: "Type \<Rightarrow> bool" where
  "hasStaticShape t = (hasRank t \<and> \<not> list_ex isDynamic (getShape t))"

subsection \<open>preservesStaticInformation\<close>

text \<open>The loop over \<open>llvm::zip(sourceType.getShape(), targetType.getShape())\<close>: it returns
  false at the first pair whose source extent is static and whose target extent is dynamic.\<close>

fun preservesLoop :: "(int \<times> int) list \<Rightarrow> bool" where
  "preservesLoop [] = True"
| "preservesLoop ((s, t) # rest) =
     (if \<not> isDynamic s \<and> isDynamic t then False else preservesLoop rest)"

definition preservesStaticInformation :: "Type \<Rightarrow> Type \<Rightarrow> bool" where
  "preservesStaticInformation source target =
     (case source of
        RankedTensorType sShape sElem \<Rightarrow>
          (case target of
             RankedTensorType tShape tElem \<Rightarrow>
               if sElem \<noteq> tElem then False
               else if length sShape \<noteq> length tShape then False
               else preservesLoop (zip sShape tShape)
           | _ \<Rightarrow> False)
      | _ \<Rightarrow> False)"

subsection \<open>joinShapes\<close>

text \<open>The loop of \<open>joinShapes\<close> over the dimensions \<open>0 .. rank - 1\<close> of two shapes of the
  same rank; \<open>None\<close> is the early \<open>return {}\<close>.\<close>

fun joinLoop :: "int list \<Rightarrow> int list \<Rightarrow> int list option" where
  "joinLoop (a # as) (b # bs) =
     (if isDynamic a then map_option ((#) b) (joinLoop as bs)
      else if isDynamic b then map_option ((#) a) (joinLoop as bs)
      else if a \<noteq> b then None
      else map_option ((#) a) (joinLoop as bs))"
| "joinLoop _ _ = Some []"

text \<open>What aborts the program instead of returning: a failed \<open>assert\<close>, or an access
  outside a container (\<open>ArrayRef::drop_back\<close>, \<open>operator[]\<close>).\<close>

datatype error = AssertionFailure | OutOfBounds

text \<open>\<open>joinShapes\<close> takes two tensor types and asserts that their element types match; the
  result \<open>None\<close> is the null type.\<close>

definition joinShapes :: "Type \<Rightarrow> Type \<Rightarrow> error + Type option" where
  "joinShapes one two =
     (if getElementType one \<noteq> getElementType two then Inl AssertionFailure
      else if \<not> hasRank one then Inr (Some two)
      else if \<not> hasRank two then Inr (Some one)
      else if length (getShape one) \<noteq> length (getShape two) then Inr None
      else Inr (map_option (\<lambda>join. RankedTensorType join (getElementType one))
                  (joinLoop (getShape one) (getShape two))))"

section \<open>Values, attributes and operations\<close>

text \<open>
  An SSA value is the result of the operation with a given identifier or a block argument,
  and carries its type. Attributes are compile-time constants: an integer, a splat (one
  value repeated over a shaped type), or any other elements attribute, kept as the table
  from its valid indices to its values.
\<close>

datatype Value =
    OpResult nat Type
  | BlockArgument nat Type

fun getType :: "Value \<Rightarrow> Type" where
  "getType (OpResult _ t) = t"
| "getType (BlockArgument _ t) = t"

datatype Attribute =
    IntegerAttr int
  | SplatElementsAttr Type Attribute
  | ElementsAttr Type "(64 word list \<times> Attribute) list"
  | OtherAttr string

text \<open>\<open>OpFoldResult\<close> is an attribute or a value; the null result is \<open>None\<close> of
  \<open>OpFoldResult option\<close>.\<close>

datatype OpFoldResult = Attr Attribute | Val Value

datatype LogicalResult = success | failure

record FromElementsOp =
  fromElements_elements :: "Value list"
  fromElements_type :: Type

record ExtractOp =
  extract_tensor :: Value
  extract_indices :: "Value list"

record EmptyOp =
  empty_dynamicSizes :: "Value list"
  empty_type :: Type

record GenerateOp =
  generate_operands :: "Value list"
  generate_type :: Type

record GatherOp =
  gather_sourceType :: Type
  gather_indicesType :: Type
  gather_dims :: "int list"
  gather_resultType :: Type

record CastOp =
  cast_operand :: Value
  cast_type :: Type

text \<open>The offsets, sizes and strides of a slice operation
  (\<open>OffsetSizeAndStrideOpInterface\<close>): the dynamic operands and the static arrays, which
  hold \<open>kDynamic\<close> where an operand gives the entry.\<close>

record OffsetSizeAndStrideOp =
  offsets :: "Value list"
  sizes :: "Value list"
  strides :: "Value list"
  static_offsets :: "int list"
  static_sizes :: "int list"
  static_strides :: "int list"

record ExtractSliceOp = OffsetSizeAndStrideOp +
  extractSlice_source :: Value
  extractSlice_type :: Type

record InsertSliceOp = OffsetSizeAndStrideOp +
  insertSlice_source :: Value
  insertSlice_dest :: Value
  insertSlice_type :: Type

text \<open>A pad operation. Of its region the functions below read only the terminator:
  \<open>pad_yield\<close> is the value it yields (\<open>None\<close> when the terminator is not a yield) and
  \<open>pad_yieldInBlock\<close> tells whether that value is defined inside the region's block.\<close>

record PadOp =
  pad_source :: Value
  pad_low :: "Value list"
  pad_high :: "Value list"
  pad_static_low :: "int list"
  pad_static_high :: "int list"
  pad_nofold :: bool
  pad_yield :: "Value option"
  pad_yieldInBlock :: bool
  pad_type :: Type

datatype Op =
    Constant Attribute Type
  | Cast CastOp
  | FromElements FromElementsOp
  | Extract ExtractOp
  | Empty EmptyOp
  | Generate GenerateOp
  | Gather GatherOp
  | ExtractSlice ExtractSliceOp
  | InsertSlice InsertSliceOp
  | Pad PadOp
  | OtherOp

text \<open>
  Modelled from the spec: the IR data structure, the builder and the rewriter are defined
  outside TensorOps.cpp. The spec: "an arena of operations indexed by stable identifiers,
  with operand references as indices/handles into the arena"; the builder can "create an
  operation of a given kind" and "create literal-index computations"; the rewriter can
  "replace an operation and all its uses with a new value or operation" and "update an
  operand in place". Here the operations of a function are a list, each at its
  identifier: the result of operation \<open>n\<close> is \<open>OpResult n\<close>. The builder creates an operation
  at the next free identifier; an operation that replaces another takes over its
  identifier, and with it its uses.
\<close>

type_synonym IR = "Op list"

fun getDefiningOp :: "IR \<Rightarrow> Value \<Rightarrow> Op option" where
  "getDefiningOp ir (OpResult n _) = (if n < length ir then Some (ir ! n) else None)"
| "getDefiningOp ir (BlockArgument _ _) = None"

definition create :: "IR \<Rightarrow> Op \<Rightarrow> Type \<Rightarrow> Value \<times> IR" where
  "create ir op t = (OpResult (length ir) t, ir @ [op])"

definition create_ConstantIndexOp :: "IR \<Rightarrow> int \<Rightarrow> Value \<times> IR" where
  "create_ConstantIndexOp ir v = create ir (Constant (IntegerAttr v) IndexType) IndexType"

text \<open>
  Modelled from the spec: \<open>getConstantIntValue\<close>, \<open>getMixedValues\<close> and
  \<open>dispatchIndexOpFoldResults\<close> are defined outside TensorOps.cpp. The spec: each entry "is
  represented per-dimension as either a compile-time integer or a runtime value
  reference; a parallel static array uses a dynamic-sentinel placeholder where a runtime
  value is used", the sentinel entries matching the runtime-value list in order. The
  constant value of an entry is its integer attribute, or the integer of the constant
  operation that defines its value. The attribute of an entry of a mixed list is an
  integer attribute; \<open>getMixedValues\<close> stops where the runtime-value list is exhausted,
  which the invariant excludes.
\<close>

definition getConstantIntValue :: "IR \<Rightarrow> OpFoldResult \<Rightarrow> int option" where
  "getConstantIntValue ir ofr =
     (case ofr of
        Attr (IntegerAttr i) \<Rightarrow> Some i
      | Attr _ \<Rightarrow> None
      | Val v \<Rightarrow> (case getDefiningOp ir v of
                    Some (Constant (IntegerAttr i) _) \<Rightarrow> Some i
                  | _ \<Rightarrow> None))"

fun getMixedValues :: "int list \<Rightarrow> Value list \<Rightarrow> OpFoldResult list" where
  "getMixedValues [] dynamicValues = []"
| "getMixedValues (s # staticValues) dynamicValues =
     (if isDynamic s then
        (case dynamicValues of
           [] \<Rightarrow> []
         | v # rest \<Rightarrow> Val v # getMixedValues staticValues rest)
      else Attr (IntegerAttr s) # getMixedValues staticValues dynamicValues)"


definition getMixedOffsets :: "'a OffsetSizeAndStrideOp_scheme \<Rightarrow> OpFoldResult list" where
  "getMixedOffsets op = getMixedValues (static_offsets op) (offsets op)"

definition getMixedSizes :: "'a OffsetSizeAndStrideOp_scheme \<Rightarrow> OpFoldResult list" where
  "getMixedSizes op = getMixedValues (static_sizes op) (sizes op)"

definition getMixedStrides :: "'a OffsetSizeAndStrideOp_scheme \<Rightarrow> OpFoldResult list" where
  "getMixedStrides op = getMixedValues (static_strides op) (strides op)"

section \<open>ExtractOp::fold\<close>

text \<open>The loop that collects the constant indices; \<open>None\<close> is the early \<open>return {}\<close> at an
  index operand that is not an integer constant. The indices are \<open>uint64_t\<close>.\<close>

fun collectIndices :: "Attribute option list \<Rightarrow> 64 word list option" where
  "collectIndices [] = Some []"
| "collectIndices (indice # rest) =
     (case indice of
        Some (IntegerAttr i) \<Rightarrow> map_option ((#) (word_of_int i)) (collectIndices rest)
      | _ \<Rightarrow> None)"

text \<open>
  The loop \<open>for (int i = rank - 1; i >= 0; --i)\<close>; the third argument is \<open>i + 1\<close>.
  \<open>flatIndex\<close> and \<open>stride\<close> are \<open>int\<close> (32 bits); \<open>stride *= getDimSize(i)\<close> multiplies in 64
  bits and truncates, \<open>flatIndex += indices[i] * stride\<close> computes in unsigned 64 bits and
  truncates.
\<close>

fun flattenLoop :: "int list \<Rightarrow> 64 word list \<Rightarrow> nat \<Rightarrow> 32 word \<Rightarrow> 32 word \<Rightarrow> 32 word" where
  "flattenLoop shape indices 0 flatIndex stride = flatIndex"
| "flattenLoop shape indices (Suc i) flatIndex stride =
     (let stride' = (if int i < int (length shape) - 1
                     then ucast ((scast stride :: 64 word) * word_of_int (shape ! i))
                     else stride);
          flatIndex' = ucast ((scast flatIndex :: 64 word) + indices ! i * scast stride')
      in flattenLoop shape indices i flatIndex' stride')"

definition ExtractOp_fold ::
    "IR \<Rightarrow> ExtractOp \<Rightarrow> Attribute option list \<Rightarrow> error + OpFoldResult option" where
  "ExtractOp_fold ir op operands =
     (case operands of
        [] \<Rightarrow> Inl OutOfBounds
      | tensor # rest \<Rightarrow>
          (case tensor of
             Some (SplatElementsAttr _ splatValue) \<Rightarrow> Inr (Some (Attr splatValue))
           | _ \<Rightarrow>
             (case collectIndices rest of
                None \<Rightarrow> Inr None
              | Some indices \<Rightarrow>
                  (case getDefiningOp ir (extract_tensor op) of
                     Some (FromElements fromElementsOp) \<Rightarrow>
                       (let shape = getShape (fromElements_type fromElementsOp);
                            elements = fromElements_elements fromElementsOp
                        in if length indices \<noteq> length shape then Inl AssertionFailure
                           else
                             (let flatIndex = flattenLoop shape indices (length shape) 0 1
                              in if sint (word_of_nat (length elements) :: 32 word) \<le> sint flatIndex
                                    \<or> sint flatIndex < 0
                                 then Inr None
                                 else Inr (Some (Val (elements ! nat (sint flatIndex))))))
                   | _ \<Rightarrow>
                       (case tensor of
                          Some (ElementsAttr _ table) \<Rightarrow>
                            (case map_of table indices of
                               Some v \<Rightarrow> Inr (Some (Attr v))
                             | None \<Rightarrow> Inr None)
                        | _ \<Rightarrow> Inr None)))))"

text \<open>The row-major flattened index in the spec's words: the index accumulates as the sum
  of \<open>idx[i] * stride[i]\<close>, the stride of dimension \<open>i\<close> being the product of the sizes of the
  trailing dimensions \<open>i + 1 .. rank - 1\<close>.\<close>

fun rowMajorIndex :: "int list \<Rightarrow> int list \<Rightarrow> int" where
  "rowMajorIndex (d # shape) (i # idx) = i * prod_list shape + rowMajorIndex shape idx"
| "rowMajorIndex _ _ = 0"

section \<open>Shape reification of EmptyOp and GenerateOp\<close>

text \<open>The loops of the two \<open>reifyResultShapes\<close> over the dimensions; the arguments are the
  extents still to visit, the loop variable, the counter into the dynamic sizes, and the
  builder's operations. The result is \<open>reifiedReturnShapes[0]\<close> with the operations built.\<close>

fun EmptyOp_reifyLoop ::
    "int list \<Rightarrow> int \<Rightarrow> nat \<Rightarrow> Value list \<Rightarrow> IR \<Rightarrow> error + (Value list \<times> IR)" where
  "EmptyOp_reifyLoop [] i ctr dynamicSizes ir = Inr ([], ir)"
| "EmptyOp_reifyLoop (d # dims) i ctr dynamicSizes ir =
     (if isDynamic d then
        (if ctr < length dynamicSizes then
           (case EmptyOp_reifyLoop dims (i + 1) (ctr + 1) dynamicSizes ir of
              Inl e \<Rightarrow> Inl e
            | Inr (vs, ir') \<Rightarrow> Inr (dynamicSizes ! ctr # vs, ir'))
         else Inl OutOfBounds)
      else
        (let (c, ir1) = create_ConstantIndexOp ir i
         in case EmptyOp_reifyLoop dims (i + 1) ctr dynamicSizes ir1 of
              Inl e \<Rightarrow> Inl e
            | Inr (vs, ir') \<Rightarrow> Inr (c # vs, ir')))"

definition EmptyOp_reifyResultShapes :: "IR \<Rightarrow> EmptyOp \<Rightarrow> error + (Value list \<times> IR)" where
  "EmptyOp_reifyResultShapes ir op =
     EmptyOp_reifyLoop (getShape (empty_type op)) 0 0 (empty_dynamicSizes op) ir"

fun GenerateOp_reifyLoop ::
    "int list \<Rightarrow> nat \<Rightarrow> Value list \<Rightarrow> IR \<Rightarrow> error + (Value list \<times> IR)" where
  "GenerateOp_reifyLoop [] idx operands ir = Inr ([], ir)"
| "GenerateOp_reifyLoop (d # dims) idx operands ir =
     (if isDynamic d then
        (if idx < length operands then
           (case GenerateOp_reifyLoop dims (idx + 1) operands ir of
              Inl e \<Rightarrow> Inl e
            | Inr (vs, ir') \<Rightarrow> Inr (operands ! idx # vs, ir'))
         else Inl OutOfBounds)
      else
        (let (c, ir1) = create_ConstantIndexOp ir d
         in case GenerateOp_reifyLoop dims idx operands ir1 of
              Inl e \<Rightarrow> Inl e
            | Inr (vs, ir') \<Rightarrow> Inr (c # vs, ir')))"

definition GenerateOp_reifyResultShapes :: "IR \<Rightarrow> GenerateOp \<Rightarrow> error + (Value list \<times> IR)" where
  "GenerateOp_reifyResultShapes ir op =
     GenerateOp_reifyLoop (getShape (generate_type op)) 0 (generate_operands op) ir"

section \<open>ExtractSliceOp: inferred result types\<close>

text \<open>\<open>ExtractSliceOp::inferResultType\<close> on the static arrays: the inferred type has the
  static sizes as its shape. The assertion compares the number of sizes with the rank of
  the source.\<close>

definition ExtractSliceOp_inferResultType ::
    "Type \<Rightarrow> int list \<Rightarrow> int list \<Rightarrow> int list \<Rightarrow> error + Type" where
  "ExtractSliceOp_inferResultType sourceShapedTensorType staticOffsets staticSizes staticStrides =
     (if length staticSizes \<noteq> length (getShape sourceShapedTensorType)
      then Inl AssertionFailure
      else Inr (RankedTensorType staticSizes (getElementType sourceShapedTensorType)))"

text \<open>
  Modelled from the spec: \<open>getPositionsOfShapeOne\<close> is defined outside TensorOps.cpp. The
  spec: "drop exactly rankDiff unit-sized dimensions, breaking ties deterministically by
  dropping the leading-most unit dimensions first". The result is the bit vector over the
  positions of the shape, set at the leading-most unit-sized positions, at most \<open>rank\<close> of
  them.
\<close>

fun getPositionsOfShapeOne :: "nat \<Rightarrow> int list \<Rightarrow> bool list" where
  "getPositionsOfShapeOne rank [] = []"
| "getPositionsOfShapeOne rank (d # shape) =
     (if 0 < rank \<and> d = 1 then True # getPositionsOfShapeOne (rank - 1) shape
      else False # getPositionsOfShapeOne rank shape)"

text \<open>The loop over the positions of the shape that keeps the extents whose bit is not
  set.\<close>

fun projectShape :: "int list \<Rightarrow> bool list \<Rightarrow> int list" where
  "projectShape (d # shape) (b # dimsToProject) =
     (if \<not> b then d # projectShape shape dimsToProject
      else projectShape shape dimsToProject)"
| "projectShape _ _ = []"

definition ExtractSliceOp_inferCanonicalRankReducedResultType ::
    "nat \<Rightarrow> Type \<Rightarrow> int list \<Rightarrow> int list \<Rightarrow> int list \<Rightarrow> error + Type" where
  "ExtractSliceOp_inferCanonicalRankReducedResultType desiredResultRank sourceRankedTensorType
       staticOffsets staticSizes staticStrides =
     (case ExtractSliceOp_inferResultType sourceRankedTensorType
             staticOffsets staticSizes staticStrides of
        Inl e \<Rightarrow> Inl e
      | Inr inferredType \<Rightarrow>
          (let rankDiff = int (length (getShape inferredType)) - int desiredResultRank
           in if rankDiff > 0 then
                (let shape = getShape inferredType;
                     dimsToProject = getPositionsOfShapeOne (nat rankDiff) shape;
                     projectedShape = projectShape shape dimsToProject
                 in Inr (RankedTensorType projectedShape (getElementType inferredType)))
              else Inr inferredType))"

text \<open>The rank reduction in the spec's words: drop unit-sized dimensions, the leading-most
  first, one per step.\<close>

fun dropLeadingUnitDims :: "nat \<Rightarrow> int list \<Rightarrow> int list" where
  "dropLeadingUnitDims 0 shape = shape"
| "dropLeadingUnitDims (Suc n) shape = dropLeadingUnitDims n (remove1 1 shape)"

section \<open>GatherOp\<close>












section \<open>CastOp: compatibility and the chained-cast pattern\<close>

text \<open>
  Modelled from the spec: \<open>verifyCompatibleShape\<close> is defined outside TensorOps.cpp. The
  spec: "Two tensor types are shape-compatible if ranks match and, per dimension, at least
  one side is dynamic or both static sizes agree"; "an unranked type carries no rank and
  is compatible with anything of the same element type".
\<close>

definition verifyCompatibleShape :: "Type \<Rightarrow> Type \<Rightarrow> LogicalResult" where
  "verifyCompatibleShape type1 type2 =
     (if \<not> hasRank type1 \<or> \<not> hasRank type2 then success
      else if length (getShape type1) \<noteq> length (getShape type2) then failure
      else if list_all2 (\<lambda>dim1 dim2. isDynamic dim1 \<or> isDynamic dim2 \<or> dim1 = dim2)
                (getShape type1) (getShape type2)
           then success
      else failure)"

definition areCastCompatible :: "Type list \<Rightarrow> Type list \<Rightarrow> bool" where
  "areCastCompatible inputs outputs =
     (case (inputs, outputs) of
        ([a], [b]) \<Rightarrow>
          if \<not> isTensorType a \<or> \<not> isTensorType b then False
          else if getElementType a \<noteq> getElementType b then False
          else verifyCompatibleShape a b = success
      | _ \<Rightarrow> False)"

text \<open>
  \<open>ChainedTensorCast::matchAndRewrite\<close> on the cast operation \<open>tensorCast\<close> with identifier \<open>n\<close>.
  The result is the pattern's \<open>LogicalResult\<close> with the operations after it ran.
  \<open>cast<TensorType>\<close> asserts on a type that is no tensor type; the inner \<open>joinShapes\<close>
  returning the null type makes the outer call read the element type of a null type.
  \<open>replaceOpWithNewOp\<close> puts the new cast in the place of \<open>tensorCast\<close>.
\<close>

definition ChainedTensorCast_matchAndRewrite ::
    "IR \<Rightarrow> nat \<Rightarrow> CastOp \<Rightarrow> error + (LogicalResult \<times> IR)" where
  "ChainedTensorCast_matchAndRewrite ir n tensorCast =
     (case getDefiningOp ir (cast_operand tensorCast) of
        Some (Cast tensorCastOperand) \<Rightarrow>
          (let sourceType = getType (cast_operand tensorCastOperand);
               intermediateType = cast_type tensorCastOperand;
               resultType = cast_type tensorCast
           in if \<not> isTensorType sourceType \<or> \<not> isTensorType intermediateType
                 \<or> \<not> isTensorType resultType
              then Inl AssertionFailure
              else
                (case joinShapes sourceType intermediateType of
                   Inl e \<Rightarrow> Inl e
                 | Inr None \<Rightarrow> Inl AssertionFailure
                 | Inr (Some innerJoin) \<Rightarrow>
                     (case joinShapes innerJoin resultType of
                        Inl e \<Rightarrow> Inl e
                      | Inr None \<Rightarrow> Inr (failure, ir)
                      | Inr (Some firstJoin) \<Rightarrow>
                          (case joinShapes sourceType resultType of
                             Inl e \<Rightarrow> Inl e
                           | Inr newJoin \<Rightarrow>
                               if Some firstJoin \<noteq> newJoin then Inr (failure, ir)
                               else Inr (success,
                                         ir[n := Cast \<lparr>cast_operand = cast_operand tensorCastOperand,
                                                       cast_type = resultType\<rparr>])))))
      | _ \<Rightarrow> Inr (failure, ir))"

section \<open>InsertSliceOp::fold\<close>

text \<open>
  Modelled from the spec: \<open>isSameAs\<close> of \<open>OffsetSizeAndStrideOpInterface\<close> is defined outside
  TensorOps.cpp; the callers pass equality of \<open>OpFoldResult\<close> as the comparison. The spec:
  the two operations have "identical mixed offsets, sizes, and strides".
\<close>

definition isSameAs ::
    "'a OffsetSizeAndStrideOp_scheme \<Rightarrow> 'b OffsetSizeAndStrideOp_scheme \<Rightarrow> bool" where
  "isSameAs op other =
     (getMixedOffsets op = getMixedOffsets other
      \<and> getMixedSizes op = getMixedSizes other
      \<and> getMixedStrides op = getMixedStrides other)"

definition foldIdentityOffsetSizeAndStrideOpInterface ::
    "IR \<Rightarrow> 'a OffsetSizeAndStrideOp_scheme \<Rightarrow> Type \<Rightarrow> LogicalResult" where
  "foldIdentityOffsetSizeAndStrideOpInterface ir op shapedType =
     (if list_ex (\<lambda>ofr. getConstantIntValue ir ofr \<noteq> Some 0) (getMixedOffsets op) then failure
      else if list_ex (\<lambda>(size, dim). getConstantIntValue ir size \<noteq> Some dim)
                (zip (getMixedSizes op) (getShape shapedType))
           then failure
      else if list_ex (\<lambda>ofr. getConstantIntValue ir ofr \<noteq> Some 1) (getMixedStrides op) then failure
      else success)"

text \<open>\<open>foldInsertAfterInsertSlice\<close> assigns the destination operand of \<open>insertOp\<close> in place; the
  result carries the operation after the call.\<close>

definition foldInsertAfterInsertSlice ::
    "IR \<Rightarrow> InsertSliceOp \<Rightarrow> LogicalResult \<times> InsertSliceOp" where
  "foldInsertAfterInsertSlice ir insertOp =
     (case getDefiningOp ir (insertSlice_dest insertOp) of
        Some (InsertSlice prevInsertOp) \<Rightarrow>
          if getType (insertSlice_source prevInsertOp) \<noteq> getType (insertSlice_source insertOp)
             \<or> \<not> isSameAs prevInsertOp insertOp
          then (failure, insertOp)
          else (success, insertOp\<lparr>insertSlice_dest := insertSlice_dest prevInsertOp\<rparr>)
      | _ \<Rightarrow> (failure, insertOp))"

definition foldInsertAfterExtractSlice :: "IR \<Rightarrow> InsertSliceOp \<Rightarrow> Value option" where
  "foldInsertAfterExtractSlice ir insertOp =
     (case getDefiningOp ir (insertSlice_source insertOp) of
        Some (ExtractSlice extractOp) \<Rightarrow>
          if extractSlice_source extractOp \<noteq> insertSlice_dest insertOp
             \<or> \<not> isSameAs extractOp insertOp
          then None
          else Some (extractSlice_source extractOp)
      | _ \<Rightarrow> None)"

text \<open>\<open>InsertSliceOp::fold\<close> on the operation with identifier \<open>n\<close>: the fold result and the
  operations after the call (the fold may have updated the operation in place).\<close>

definition InsertSliceOp_fold :: "IR \<Rightarrow> nat \<Rightarrow> InsertSliceOp \<Rightarrow> OpFoldResult option \<times> IR" where
  "InsertSliceOp_fold ir n op =
     (if hasStaticShape (getType (insertSlice_source op)) \<and> hasStaticShape (insertSlice_type op)
         \<and> getType (insertSlice_source op) = insertSlice_type op
         \<and> foldIdentityOffsetSizeAndStrideOpInterface ir op (insertSlice_type op) = success
      then (Some (Val (insertSlice_source op)), ir)
      else
        (case foldInsertAfterInsertSlice ir op of
           (success, op') \<Rightarrow>
             (Some (Val (OpResult n (insertSlice_type op'))), ir[n := InsertSlice op'])
         | (failure, op') \<Rightarrow>
             (case foldInsertAfterExtractSlice ir op of
                Some result \<Rightarrow> (Some (Val result), ir)
              | None \<Rightarrow> (None, ir))))"

section \<open>PadOp and the orthogonal-paddings pattern\<close>


























section \<open>Example operation chains\<close>

text \<open>Slices, insertions and pads with static offsets, sizes and padding and unit strides,
  and the chains of operations the properties below are tried on.\<close>

definition f32 :: Type where
  "f32 = FloatType 32"

definition staticSlice :: "Value \<Rightarrow> int list \<Rightarrow> int list \<Rightarrow> ExtractSliceOp" where
  "staticSlice source offs szs =
     \<lparr>offsets = [], sizes = [], strides = [], static_offsets = offs, static_sizes = szs,
      static_strides = map (\<lambda>_. 1) szs, extractSlice_source = source,
      extractSlice_type = RankedTensorType szs (getElementType (getType source))\<rparr>"

definition staticInsert :: "Value \<Rightarrow> Value \<Rightarrow> int list \<Rightarrow> int list \<Rightarrow> InsertSliceOp" where
  "staticInsert source dest offs szs =
     \<lparr>offsets = [], sizes = [], strides = [], static_offsets = offs, static_sizes = szs,
      static_strides = map (\<lambda>_. 1) szs, insertSlice_source = source,
      insertSlice_dest = dest, insertSlice_type = getType dest\<rparr>"


text \<open>\<open>?x? -> 8x? -> 8x16\<close>: the intermediate type adds nothing to the two ends.\<close>

definition castChain :: IR where
  "castChain =
     [Cast \<lparr>cast_operand = BlockArgument 0 (RankedTensorType [kDynamic, kDynamic] f32),
            cast_type = RankedTensorType [8, kDynamic] f32\<rparr>,
      Cast \<lparr>cast_operand = OpResult 0 (RankedTensorType [8, kDynamic] f32),
            cast_type = RankedTensorType [8, 16] f32\<rparr>]"

text \<open>\<open>?x? -> 8x16 -> 8x?\<close>: the intermediate type asserts the extent 16, which the two
  ends do not give.\<close>

definition castChainWithCheck :: IR where
  "castChainWithCheck =
     [Cast \<lparr>cast_operand = BlockArgument 0 (RankedTensorType [kDynamic, kDynamic] f32),
            cast_type = RankedTensorType [8, 16] f32\<rparr>,
      Cast \<lparr>cast_operand = OpResult 0 (RankedTensorType [8, 16] f32),
            cast_type = RankedTensorType [8, kDynamic] f32\<rparr>]"

text \<open>The whole of an \<open>8x8\<close> tensor extracted and inserted back at the same place.\<close>

definition roundTripWhole :: IR where
  "roundTripWhole =
     [ExtractSlice (staticSlice (BlockArgument 0 (RankedTensorType [8, 8] f32)) [0, 0] [8, 8]),
      InsertSlice (staticInsert (OpResult 0 (RankedTensorType [8, 8] f32))
                     (BlockArgument 0 (RankedTensorType [8, 8] f32)) [0, 0] [8, 8])]"

text \<open>A \<open>4x4\<close> slice of an \<open>8x8\<close> tensor extracted and inserted back at the same place.\<close>

definition roundTripPart :: IR where
  "roundTripPart =
     [ExtractSlice (staticSlice (BlockArgument 0 (RankedTensorType [8, 8] f32)) [2, 2] [4, 4]),
      InsertSlice (staticInsert (OpResult 0 (RankedTensorType [4, 4] f32))
                     (BlockArgument 0 (RankedTensorType [8, 8] f32)) [2, 2] [4, 4])]"

text \<open>The same round trip on a tensor that is itself the result of an insertion at that
  place.\<close>

definition roundTripOfInserted :: IR where
  "roundTripOfInserted =
     [InsertSlice (staticInsert (BlockArgument 1 (RankedTensorType [4, 4] f32))
                     (BlockArgument 0 (RankedTensorType [8, 8] f32)) [2, 2] [4, 4]),
      ExtractSlice (staticSlice (OpResult 0 (RankedTensorType [8, 8] f32)) [2, 2] [4, 4]),
      InsertSlice (staticInsert (OpResult 1 (RankedTensorType [4, 4] f32))
                     (OpResult 0 (RankedTensorType [8, 8] f32)) [2, 2] [4, 4])]"

text \<open>Two insertions at the same place, the second into the result of the first.\<close>

definition twoInserts :: IR where
  "twoInserts =
     [InsertSlice (staticInsert (BlockArgument 1 (RankedTensorType [4, 4] f32))
                     (BlockArgument 0 (RankedTensorType [8, 8] f32)) [2, 2] [4, 4]),
      InsertSlice (staticInsert (BlockArgument 2 (RankedTensorType [4, 4] f32))
                     (OpResult 0 (RankedTensorType [8, 8] f32)) [2, 2] [4, 4])]"






section \<open>Properties\<close>

subsection \<open>Shape join\<close>

lemma joinLoop_comm:
  "length as = length bs \<Longrightarrow> joinLoop as bs = joinLoop bs as"
  by (induction as bs rule: list_induct2) (auto simp: isDynamic_def)

lemma joinLoop_length:
  "length as = length bs \<Longrightarrow> joinLoop as bs = Some js \<Longrightarrow> length js = length as"
  by (induction as bs arbitrary: js rule: list_induct2) (auto split: if_splits)

lemma joinLoop_nth:
  "length as = length bs \<Longrightarrow> joinLoop as bs = Some js \<Longrightarrow> i < length as \<Longrightarrow>
     js ! i = (if isDynamic (as ! i) then bs ! i else as ! i) \<and>
     (isDynamic (as ! i) \<or> isDynamic (bs ! i) \<or> as ! i = bs ! i)"
proof (induction as bs arbitrary: js i rule: list_induct2)
  case Nil
  then show ?case by simp
next
  case (Cons a as b bs)
  from Cons.prems(1) obtain js' where js': "joinLoop as bs = Some js'"
    by (auto split: if_splits)
  show ?case
  proof (cases i)
    case 0
    with Cons.prems(1) js' show ?thesis by (auto split: if_splits)
  next
    case (Suc k)
    with Cons.prems(2) have k: "k < length as" by simp
    from Cons.prems(1) js' have "js ! Suc k = js' ! k" by (auto split: if_splits)
    with Cons.IH [OF js' k] Suc show ?thesis by simp
  qed
qed

lemma joinLoop_None:
  "length as = length bs \<Longrightarrow>
     joinLoop as bs = None \<longleftrightarrow>
       (\<exists>i < length as. \<not> isDynamic (as ! i) \<and> \<not> isDynamic (bs ! i) \<and> as ! i \<noteq> bs ! i)"
proof (induction as bs rule: list_induct2)
  case Nil
  then show ?case by simp
next
  case (Cons a as b bs)
  have ex: "(\<exists>i < length (a # as). P i) \<longleftrightarrow> P 0 \<or> (\<exists>i < length as. P (Suc i))" for P
    by (auto simp: less_Suc_eq_0_disj)
  show ?case
    unfolding ex using Cons.IH by auto
qed

text \<open>
  C5. The shape join of two tensor types with matching element type is commutative. For
  two ranked types: when the join exists it is ranked, with the same rank and element
  type, each of its dimensions carries the static extent of whichever input is static
  there (the inputs agree where both are static) and is dynamic only where both inputs
  are dynamic; the join does not exist when the ranks differ, and for equal ranks it does
  not exist exactly when some dimension carries two different static extents.
\<close>

theorem joinShapes_commutative_most_static:
  "(isTensorType one \<and> isTensorType two \<and> getElementType one = getElementType two
      \<longrightarrow> joinShapes one two = joinShapes two one)
   \<and> (joinShapes (RankedTensorType sa e) (RankedTensorType sb e) = Inr (Some j) \<longrightarrow>
        (\<exists>js. j = RankedTensorType js e \<and> length js = length sa \<and> length js = length sb \<and>
           (\<forall>i < length js.
              (\<not> isDynamic (sa ! i) \<longrightarrow> js ! i = sa ! i) \<and>
              (\<not> isDynamic (sb ! i) \<longrightarrow> js ! i = sb ! i) \<and>
              (isDynamic (js ! i) \<longleftrightarrow> isDynamic (sa ! i) \<and> isDynamic (sb ! i)))))
   \<and> (length sa \<noteq> length sb \<longrightarrow>
        joinShapes (RankedTensorType sa e) (RankedTensorType sb e) = Inr None)
   \<and> (length sa = length sb \<longrightarrow>
        (joinShapes (RankedTensorType sa e) (RankedTensorType sb e) = Inr None \<longleftrightarrow>
           (\<exists>i < length sa. \<not> isDynamic (sa ! i) \<and> \<not> isDynamic (sb ! i) \<and> sa ! i \<noteq> sb ! i)))"
proof (intro conjI impI)
  assume h: "isTensorType one \<and> isTensorType two \<and> getElementType one = getElementType two"
  show "joinShapes one two = joinShapes two one"
  proof (cases "hasRank one \<and> hasRank two")
    case True
    then show ?thesis
      using h joinLoop_comm [of "getShape one" "getShape two"]
      by (auto simp: joinShapes_def)
  next
    case False
    then show ?thesis
      using h by (cases one; cases two) (auto simp: joinShapes_def hasRank_def isTensorType_def)
  qed
next
  assume j: "joinShapes (RankedTensorType sa e) (RankedTensorType sb e) = Inr (Some j)"
  then have len: "length sa = length sb"
    by (auto simp: joinShapes_def hasRank_def split: if_splits)
  with j obtain js where js: "joinLoop sa sb = Some js" and jeq: "j = RankedTensorType js e"
    by (auto simp: joinShapes_def hasRank_def)
  have l: "length js = length sa" using joinLoop_length [OF len js] .
  have "\<forall>i < length js.
          (\<not> isDynamic (sa ! i) \<longrightarrow> js ! i = sa ! i) \<and>
          (\<not> isDynamic (sb ! i) \<longrightarrow> js ! i = sb ! i) \<and>
          (isDynamic (js ! i) \<longleftrightarrow> isDynamic (sa ! i) \<and> isDynamic (sb ! i))"
  proof (intro allI impI)
    fix i assume "i < length js"
    with l have i: "i < length sa" by simp
    from joinLoop_nth [OF len js i]
    show "(\<not> isDynamic (sa ! i) \<longrightarrow> js ! i = sa ! i) \<and>
          (\<not> isDynamic (sb ! i) \<longrightarrow> js ! i = sb ! i) \<and>
          (isDynamic (js ! i) \<longleftrightarrow> isDynamic (sa ! i) \<and> isDynamic (sb ! i))"
      by (auto simp: isDynamic_def)
  qed
  with jeq l len
  show "\<exists>js. j = RankedTensorType js e \<and> length js = length sa \<and> length js = length sb \<and>
           (\<forall>i < length js.
              (\<not> isDynamic (sa ! i) \<longrightarrow> js ! i = sa ! i) \<and>
              (\<not> isDynamic (sb ! i) \<longrightarrow> js ! i = sb ! i) \<and>
              (isDynamic (js ! i) \<longleftrightarrow> isDynamic (sa ! i) \<and> isDynamic (sb ! i)))"
    by auto
next
  assume "length sa \<noteq> length sb"
  then show "joinShapes (RankedTensorType sa e) (RankedTensorType sb e) = Inr None"
    by (simp add: joinShapes_def hasRank_def)
next
  assume len: "length sa = length sb"
  then show "joinShapes (RankedTensorType sa e) (RankedTensorType sb e) = Inr None \<longleftrightarrow>
           (\<exists>i < length sa. \<not> isDynamic (sa ! i) \<and> \<not> isDynamic (sb ! i) \<and> sa ! i \<noteq> sb ! i)"
    using joinLoop_None [OF len] by (simp add: joinShapes_def hasRank_def)
qed

theorem joinShapes_commutative_most_static_witness:
  "isTensorType (RankedTensorType [kDynamic, 16] (FloatType 32))
   \<and> isTensorType (RankedTensorType [8, kDynamic] (FloatType 32))
   \<and> joinShapes (RankedTensorType [kDynamic, 16] (FloatType 32))
                 (RankedTensorType [8, kDynamic] (FloatType 32))
       = joinShapes (RankedTensorType [8, kDynamic] (FloatType 32))
                    (RankedTensorType [kDynamic, 16] (FloatType 32))
   \<and> joinShapes (RankedTensorType [kDynamic, 16] (FloatType 32))
                 (RankedTensorType [8, kDynamic] (FloatType 32))
       = Inr (Some (RankedTensorType [8, 16] (FloatType 32)))
   \<and> length [8, 16 :: int] = length [kDynamic, 16]
   \<and> (0::nat) < length [8, 16 :: int] \<and> \<not> isDynamic ([8, kDynamic] ! 0)
   \<and> length [8 :: int] \<noteq> length [8, 16 :: int]
   \<and> joinShapes (RankedTensorType [8] (FloatType 32)) (RankedTensorType [8, 16] (FloatType 32))
       = Inr None
   \<and> length [8, 3 :: int] = length [8, 16 :: int]
   \<and> joinShapes (RankedTensorType [8, 3] (FloatType 32)) (RankedTensorType [8, 16] (FloatType 32))
       = Inr None"
  using joinShapes_commutative_most_static
          [where one = "RankedTensorType [kDynamic, 16] (FloatType 32)"
             and two = "RankedTensorType [8, kDynamic] (FloatType 32)"
             and sa = "[kDynamic, 16]" and sb = "[8, kDynamic]" and e = "FloatType 32"
             and j = "RankedTensorType [8, 16] (FloatType 32)"]
        joinShapes_commutative_most_static
          [where sa = "[8]" and sb = "[8, 16]" and e = "FloatType 32"]
        joinShapes_commutative_most_static
          [where sa = "[8, 3]" and sb = "[8, 16]" and e = "FloatType 32"]
  by (simp add: joinShapes_def hasRank_def isTensorType_def isDynamic_def kDynamic_def)

subsection \<open>Static information of a cast\<close>

lemma preservesLoop_iff:
  "length ss = length ts \<Longrightarrow>
     preservesLoop (zip ss ts) \<longleftrightarrow> (\<forall>i < length ss. isDynamic (ts ! i) \<longrightarrow> isDynamic (ss ! i))"
proof (induction ss ts rule: list_induct2)
  case Nil
  then show ?case by simp
next
  case (Cons s ss t ts)
  have ex: "(\<forall>i < length (s # ss). P i) \<longleftrightarrow> P 0 \<and> (\<forall>i < length ss. P (Suc i))" for P
    by (auto simp: less_Suc_eq_0_disj)
  show ?case
    unfolding ex using Cons.IH by auto
qed

lemma preservesStaticInformation_ranked:
  "length ss = length ts \<Longrightarrow>
     preservesStaticInformation (RankedTensorType ss e) (RankedTensorType ts e)
       \<longleftrightarrow> (\<forall>i < length ss. isDynamic (ts ! i) \<longrightarrow> isDynamic (ss ! i))"
  by (simp add: preservesStaticInformation_def preservesLoop_iff)

text \<open>
  C3, as stated, fails twice. Shapes \<open>[2]\<close> and \<open>[3]\<close> are both static, so each type preserves
  the static information of the other although the shapes differ; and with \<open>S = [4]\<close> static
  and \<open>T = [?]\<close> dynamic it is the direction from \<open>T\<close> to \<open>S\<close> that holds, not the one from \<open>S\<close>
  to \<open>T\<close>.
\<close>

theorem preservesStaticInformation_both_not_identical:
  "preservesStaticInformation (RankedTensorType [2] (FloatType 32)) (RankedTensorType [3] (FloatType 32))
   \<and> preservesStaticInformation (RankedTensorType [3] (FloatType 32)) (RankedTensorType [2] (FloatType 32))
   \<and> [2 :: int] \<noteq> [3]
   \<and> \<not> preservesStaticInformation (RankedTensorType [4] (FloatType 32))
                                    (RankedTensorType [kDynamic] (FloatType 32))
   \<and> preservesStaticInformation (RankedTensorType [kDynamic] (FloatType 32))
                                  (RankedTensorType [4] (FloatType 32))"
  by (simp add: preservesStaticInformation_def isDynamic_def kDynamic_def)

text \<open>
  C3, amended. For ranked tensor types \<open>S\<close> and \<open>T\<close> of the same rank and element type,
  \<open>preservesStaticInformation S T\<close> and \<open>preservesStaticInformation T S\<close> both hold if and only
  if \<open>S\<close> and \<open>T\<close> are dynamic in exactly the same dimensions (static extents are not
  compared). Where \<open>S\<close> is static in a dimension that \<open>T\<close> has dynamic, and all other dimensions
  are equal, only the direction from \<open>T\<close> to \<open>S\<close> holds.
\<close>

theorem preservesStaticInformation_both_directions:
  assumes "length ss = length ts"
  shows "(preservesStaticInformation (RankedTensorType ss e) (RankedTensorType ts e)
            \<and> preservesStaticInformation (RankedTensorType ts e) (RankedTensorType ss e)
          \<longleftrightarrow> map isDynamic ss = map isDynamic ts)
       \<and> (k < length ss \<and> \<not> isDynamic (ss ! k) \<and> isDynamic (ts ! k)
            \<and> (\<forall>i < length ss. i \<noteq> k \<longrightarrow> ss ! i = ts ! i)
          \<longrightarrow> preservesStaticInformation (RankedTensorType ts e) (RankedTensorType ss e)
              \<and> \<not> preservesStaticInformation (RankedTensorType ss e) (RankedTensorType ts e))"
proof (intro conjI impI)
  have "map isDynamic ss = map isDynamic ts
          \<longleftrightarrow> (\<forall>i < length ss. isDynamic (ss ! i) = isDynamic (ts ! i))"
    using assms by (auto simp: list_eq_iff_nth_eq)
  then show "preservesStaticInformation (RankedTensorType ss e) (RankedTensorType ts e)
            \<and> preservesStaticInformation (RankedTensorType ts e) (RankedTensorType ss e)
          \<longleftrightarrow> map isDynamic ss = map isDynamic ts"
    using assms preservesStaticInformation_ranked [of ss ts e]
      preservesStaticInformation_ranked [of ts ss e]
    by auto
next
  assume h: "k < length ss \<and> \<not> isDynamic (ss ! k) \<and> isDynamic (ts ! k)
            \<and> (\<forall>i < length ss. i \<noteq> k \<longrightarrow> ss ! i = ts ! i)"
  have "\<forall>i < length ts. isDynamic (ss ! i) \<longrightarrow> isDynamic (ts ! i)"
  proof (intro allI impI)
    fix i assume "i < length ts" and d: "isDynamic (ss ! i)"
    with h assms show "isDynamic (ts ! i)" by (cases "i = k") auto
  qed
  then show "preservesStaticInformation (RankedTensorType ts e) (RankedTensorType ss e)"
    using assms preservesStaticInformation_ranked [of ts ss e] by simp
next
  assume h: "k < length ss \<and> \<not> isDynamic (ss ! k) \<and> isDynamic (ts ! k)
            \<and> (\<forall>i < length ss. i \<noteq> k \<longrightarrow> ss ! i = ts ! i)"
  then show "\<not> preservesStaticInformation (RankedTensorType ss e) (RankedTensorType ts e)"
    using assms preservesStaticInformation_ranked [of ss ts e] by auto
qed

theorem preservesStaticInformation_both_directions_witness:
  "length [4, 7 :: int] = length [kDynamic, 7]
   \<and> (1::nat) < length [kDynamic, 7 :: int]
   \<and> map isDynamic [kDynamic, 7] = map isDynamic [kDynamic, 9]
   \<and> preservesStaticInformation (RankedTensorType [kDynamic, 7] IndexType)
                                  (RankedTensorType [kDynamic, 9] IndexType)
   \<and> preservesStaticInformation (RankedTensorType [kDynamic, 9] IndexType)
                                  (RankedTensorType [kDynamic, 7] IndexType)
   \<and> (0::nat) < length [4, 7 :: int] \<and> \<not> isDynamic ([4, 7] ! 0) \<and> isDynamic ([kDynamic, 7] ! 0)
   \<and> [4, 7] ! 1 = [kDynamic, 7 :: int] ! 1
   \<and> preservesStaticInformation (RankedTensorType [kDynamic, 7] IndexType)
                                  (RankedTensorType [4, 7] IndexType)
   \<and> \<not> preservesStaticInformation (RankedTensorType [4, 7] IndexType)
                                    (RankedTensorType [kDynamic, 7] IndexType)"
proof -
  have len: "length [4, 7 :: int] = length [kDynamic, 7]" by simp
  have len': "length [kDynamic, 7 :: int] = length [kDynamic, 9]" by simp
  have others: "\<forall>i < length [4, 7 :: int]. i \<noteq> 0 \<longrightarrow> [4, 7] ! i = [kDynamic, 7 :: int] ! i"
    by (simp add: less_Suc_eq_0_disj)
  show ?thesis
    using preservesStaticInformation_both_directions [OF len, of IndexType 0]
      preservesStaticInformation_both_directions [OF len', of IndexType 0] others
    by (simp add: isDynamic_def kDynamic_def)
qed

subsection \<open>Folding an extraction from literal elements\<close>

lemma flattenLoop_2x3_at_1_2: "flattenLoop [2, 3] [1, 2] 2 0 1 = 4"
  by code_simp

text \<open>
  C1 fails on the code. For a \<open>from_elements\<close> of shape \<open>[2, 3]\<close> with elements
  \<open>[a, b, c, d, e, f]\<close>, extracting at the constant index \<open>[1, 2]\<close> folds to \<open>e\<close>: the loop
  multiplies the stride by the size of dimension \<open>i\<close> where row-major order takes the size
  of dimension \<open>i + 1\<close>, so the flattened index is \<open>2 + 1 * 2 = 4\<close>. The row-major index is
  \<open>1 * 3 + 2 = 5\<close>, the position of \<open>f\<close>.
\<close>

theorem ExtractOp_fold_2x3_at_1_2:
  "ExtractOp_fold
     [FromElements \<lparr>fromElements_elements = [a, b, c, d, e, f],
                    fromElements_type = RankedTensorType [2, 3] ty\<rparr>]
     \<lparr>extract_tensor = OpResult 0 (RankedTensorType [2, 3] ty), extract_indices = [i, j]\<rparr>
     [None, Some (IntegerAttr 1), Some (IntegerAttr 2)]
   = Inr (Some (Val e))
   \<and> rowMajorIndex [2, 3] [1, 2] = 5
   \<and> [a, b, c, d, e, f] ! 5 = f"
  using flattenLoop_2x3_at_1_2 by (simp add: ExtractOp_fold_def)

subsection \<open>Shape reification\<close>

text \<open>What the two loops return, for any type: one value per dimension, the operations
  built appended to the given ones, a dynamic dimension mapped to the dynamic-size operand
  of its position among the dynamic dimensions. For a static dimension the generate
  operation builds the constant of the extent; the empty-tensor operation builds the
  constant of the loop variable, the position of the dimension.\<close>

lemma GenerateOp_reifyLoop_total:
  "idx + length (filter isDynamic dims) \<le> length operands \<Longrightarrow>
     \<exists>vs ir'. GenerateOp_reifyLoop dims idx operands ir = Inr (vs, ir')"
proof (induction dims arbitrary: idx ir)
  case Nil
  then show ?case by simp
next
  case (Cons d dims)
  show ?case
  proof (cases "isDynamic d")
    case True
    with Cons.prems have "idx < length operands"
      "Suc idx + length (filter isDynamic dims) \<le> length operands" by simp_all
    with Cons.IH [of "Suc idx" ir] True show ?thesis by auto
  next
    case False
    with Cons.prems have "idx + length (filter isDynamic dims) \<le> length operands" by simp
    from Cons.IH [OF this, of "ir @ [Constant (IntegerAttr d) IndexType]"] False
    show ?thesis by (auto simp: create_ConstantIndexOp_def create_def)
  qed
qed

lemma GenerateOp_reifyLoop_values:
  "GenerateOp_reifyLoop dims idx operands ir = Inr (vs, ir') \<Longrightarrow>
     length vs = length dims \<and> (\<exists>new. ir' = ir @ new) \<and>
     (\<forall>i < length dims.
        if isDynamic (dims ! i)
        then vs ! i = operands ! (idx + length (filter isDynamic (take i dims)))
        else getConstantIntValue ir' (Val (vs ! i)) = Some (dims ! i))"
proof (induction dims arbitrary: idx ir vs ir')
  case Nil
  then show ?case by simp
next
  case (Cons d dims)
  show ?case
  proof (cases "isDynamic d")
    case True
    with Cons.prems obtain vs' where
      r: "GenerateOp_reifyLoop dims (Suc idx) operands ir = Inr (vs', ir')"
      and vs: "vs = operands ! idx # vs'"
      by (auto split: if_splits sum.splits)
    from Cons.IH [OF r] have IH: "length vs' = length dims" "\<exists>new. ir' = ir @ new"
      "\<forall>i < length dims.
        if isDynamic (dims ! i)
        then vs' ! i = operands ! (Suc idx + length (filter isDynamic (take i dims)))
        else getConstantIntValue ir' (Val (vs' ! i)) = Some (dims ! i)"
      by simp_all
    have "\<forall>i < length (d # dims).
        if isDynamic ((d # dims) ! i)
        then vs ! i = operands ! (idx + length (filter isDynamic (take i (d # dims))))
        else getConstantIntValue ir' (Val (vs ! i)) = Some ((d # dims) ! i)"
    proof (intro allI impI)
      fix i assume "i < length (d # dims)"
      then show "if isDynamic ((d # dims) ! i)
        then vs ! i = operands ! (idx + length (filter isDynamic (take i (d # dims))))
        else getConstantIntValue ir' (Val (vs ! i)) = Some ((d # dims) ! i)"
        using IH(3) True vs by (cases i) auto
    qed
    with IH(1,2) vs show ?thesis by simp
  next
    case False
    let ?ir1 = "ir @ [Constant (IntegerAttr d) IndexType]"
    from False Cons.prems obtain vs' where
      r: "GenerateOp_reifyLoop dims idx operands ?ir1 = Inr (vs', ir')"
      and vs: "vs = OpResult (length ir) IndexType # vs'"
      by (auto simp: create_ConstantIndexOp_def create_def split: sum.splits)
    from Cons.IH [OF r] have IH: "length vs' = length dims" "\<exists>new. ir' = ?ir1 @ new"
      "\<forall>i < length dims.
        if isDynamic (dims ! i)
        then vs' ! i = operands ! (idx + length (filter isDynamic (take i dims)))
        else getConstantIntValue ir' (Val (vs' ! i)) = Some (dims ! i)"
      by simp_all
    from IH(2) obtain new where new: "ir' = ir @ Constant (IntegerAttr d) IndexType # new" by auto
    then have c: "getConstantIntValue ir' (Val (OpResult (length ir) IndexType)) = Some d"
      by (simp add: getConstantIntValue_def nth_append)
    have "\<forall>i < length (d # dims).
        if isDynamic ((d # dims) ! i)
        then vs ! i = operands ! (idx + length (filter isDynamic (take i (d # dims))))
        else getConstantIntValue ir' (Val (vs ! i)) = Some ((d # dims) ! i)"
    proof (intro allI impI)
      fix i assume "i < length (d # dims)"
      then show "if isDynamic ((d # dims) ! i)
        then vs ! i = operands ! (idx + length (filter isDynamic (take i (d # dims))))
        else getConstantIntValue ir' (Val (vs ! i)) = Some ((d # dims) ! i)"
        using IH(3) False vs c by (cases i) auto
    qed
    with IH(1) new vs show ?thesis by simp
  qed
qed

lemma EmptyOp_reifyLoop_values:
  "EmptyOp_reifyLoop dims i ctr dynamicSizes ir = Inr (vs, ir') \<Longrightarrow>
     length vs = length dims \<and> (\<exists>new. ir' = ir @ new) \<and>
     (\<forall>k < length dims.
        if isDynamic (dims ! k)
        then vs ! k = dynamicSizes ! (ctr + length (filter isDynamic (take k dims)))
        else getConstantIntValue ir' (Val (vs ! k)) = Some (i + int k))"
proof (induction dims arbitrary: i ctr ir vs ir')
  case Nil
  then show ?case by simp
next
  case (Cons d dims)
  show ?case
  proof (cases "isDynamic d")
    case True
    with Cons.prems obtain vs' where
      r: "EmptyOp_reifyLoop dims (i + 1) (Suc ctr) dynamicSizes ir = Inr (vs', ir')"
      and vs: "vs = dynamicSizes ! ctr # vs'"
      by (auto split: if_splits sum.splits)
    from Cons.IH [OF r] have IH: "length vs' = length dims" "\<exists>new. ir' = ir @ new"
      "\<forall>k < length dims.
        if isDynamic (dims ! k)
        then vs' ! k = dynamicSizes ! (Suc ctr + length (filter isDynamic (take k dims)))
        else getConstantIntValue ir' (Val (vs' ! k)) = Some (i + 1 + int k)"
      by simp_all
    have "\<forall>k < length (d # dims).
        if isDynamic ((d # dims) ! k)
        then vs ! k = dynamicSizes ! (ctr + length (filter isDynamic (take k (d # dims))))
        else getConstantIntValue ir' (Val (vs ! k)) = Some (i + int k)"
    proof (intro allI impI)
      fix k assume "k < length (d # dims)"
      then show "if isDynamic ((d # dims) ! k)
        then vs ! k = dynamicSizes ! (ctr + length (filter isDynamic (take k (d # dims))))
        else getConstantIntValue ir' (Val (vs ! k)) = Some (i + int k)"
        using IH(3) True vs by (cases k) auto
    qed
    with IH(1,2) vs show ?thesis by simp
  next
    case False
    let ?ir1 = "ir @ [Constant (IntegerAttr i) IndexType]"
    from False Cons.prems obtain vs' where
      r: "EmptyOp_reifyLoop dims (i + 1) ctr dynamicSizes ?ir1 = Inr (vs', ir')"
      and vs: "vs = OpResult (length ir) IndexType # vs'"
      by (auto simp: create_ConstantIndexOp_def create_def split: sum.splits)
    from Cons.IH [OF r] have IH: "length vs' = length dims" "\<exists>new. ir' = ?ir1 @ new"
      "\<forall>k < length dims.
        if isDynamic (dims ! k)
        then vs' ! k = dynamicSizes ! (ctr + length (filter isDynamic (take k dims)))
        else getConstantIntValue ir' (Val (vs' ! k)) = Some (i + 1 + int k)"
      by simp_all
    from IH(2) obtain new where new: "ir' = ir @ Constant (IntegerAttr i) IndexType # new" by auto
    then have c: "getConstantIntValue ir' (Val (OpResult (length ir) IndexType)) = Some i"
      by (simp add: getConstantIntValue_def nth_append)
    have "\<forall>k < length (d # dims).
        if isDynamic ((d # dims) ! k)
        then vs ! k = dynamicSizes ! (ctr + length (filter isDynamic (take k (d # dims))))
        else getConstantIntValue ir' (Val (vs ! k)) = Some (i + int k)"
    proof (intro allI impI)
      fix k assume "k < length (d # dims)"
      then show "if isDynamic ((d # dims) ! k)
        then vs ! k = dynamicSizes ! (ctr + length (filter isDynamic (take k (d # dims))))
        else getConstantIntValue ir' (Val (vs ! k)) = Some (i + int k)"
        using IH(3) False vs c by (cases k) auto
    qed
    with IH(1) new vs show ?thesis by simp
  qed
qed

text \<open>
  C2 fails on the code for the empty-tensor operation. For \<open>tensor.empty\<close> of the static
  type \<open>tensor<5 x ty>\<close>, \<open>EmptyOp::reifyResultShapes\<close> builds the constant \<open>0\<close>, the position
  of the dimension, where the extent is \<open>5\<close>; \<open>GenerateOp::reifyResultShapes\<close> on the same
  type builds the constant \<open>5\<close>.
\<close>

theorem EmptyOp_reifyResultShapes_static_5:
  "EmptyOp_reifyResultShapes []
       \<lparr>empty_dynamicSizes = [], empty_type = RankedTensorType [5] ty\<rparr>
     = Inr ([OpResult 0 IndexType], [Constant (IntegerAttr 0) IndexType])
   \<and> GenerateOp_reifyResultShapes []
       \<lparr>generate_operands = [], generate_type = RankedTensorType [5] ty\<rparr>
     = Inr ([OpResult 0 IndexType], [Constant (IntegerAttr 5) IndexType])"
  by (simp add: EmptyOp_reifyResultShapes_def GenerateOp_reifyResultShapes_def
      create_ConstantIndexOp_def create_def isDynamic_def kDynamic_def)

subsection \<open>Canonical rank-reduced slice type\<close>

lemma dropLeadingUnitDims_Cons_nonunit:
  "d \<noteq> 1 \<Longrightarrow> dropLeadingUnitDims n (d # shape) = d # dropLeadingUnitDims n shape"
  by (induction n arbitrary: shape) auto

lemma dropLeadingUnitDims_Nil [simp]: "dropLeadingUnitDims n [] = []"
  by (induction n) auto

lemma projectShape_getPositionsOfShapeOne:
  "projectShape shape (getPositionsOfShapeOne k shape) = dropLeadingUnitDims k shape"
proof (induction shape arbitrary: k)
  case Nil
  then show ?case by simp
next
  case (Cons d shape)
  show ?case
  proof (cases "0 < k \<and> d = 1")
    case True
    then obtain k' where k: "k = Suc k'" by (cases k) auto
    with True Cons.IH [of k'] show ?thesis by simp
  next
    case False
    show ?thesis
    proof (cases "d = 1")
      case True
      with False have "k = 0" by simp
      with True Cons.IH [of 0] show ?thesis by simp
    next
      case False
      with Cons.IH [of k] show ?thesis
        by (simp add: dropLeadingUnitDims_Cons_nonunit)
    qed
  qed
qed

lemma length_dropLeadingUnitDims:
  "length (dropLeadingUnitDims k shape) = length shape - min k (count_list shape 1)"
proof (induction k arbitrary: shape)
  case 0
  then show ?case by simp
next
  case (Suc k)
  show ?case
  proof (cases "1 \<in> set shape")
    case True
    then have "length (remove1 1 shape) = length shape - 1"
      by (simp add: length_remove1)
    moreover from True have "count_list (remove1 1 shape) 1 = count_list shape 1 - 1"
      by (induction shape) auto
    moreover from True have "0 < count_list shape 1"
      by (induction shape) auto
    moreover from True have "0 < length shape" by (cases shape) auto
    ultimately show ?thesis using Suc.IH [of "remove1 1 shape"] by (auto simp: min_def)
  next
    case False
    then have "remove1 1 shape = shape" by (simp add: remove1_idem)
    moreover from False have "count_list shape 1 = 0" by (simp add: count_list_0_iff)
    ultimately show ?thesis using Suc.IH [of shape] by simp
  qed
qed

text \<open>
  C6, as stated, fails where the inferred shape has fewer unit-sized dimensions than
  \<open>rankDiff\<close>: sizes \<open>[2, 3]\<close> reduced to rank 1 stay \<open>[2, 3]\<close>, no dimension is dropped.
\<close>

theorem inferCanonicalRankReducedResultType_no_unit_dims:
  "ExtractSliceOp_inferCanonicalRankReducedResultType 1
       (RankedTensorType [4, 4] (FloatType 32)) [0, 0] [2, 3] [1, 1]
     = Inr (RankedTensorType [2, 3] (FloatType 32))"
  by (simp add: ExtractSliceOp_inferCanonicalRankReducedResultType_def
      ExtractSliceOp_inferResultType_def)

text \<open>
  C6, amended. When the number of sizes is the rank of the source and the inferred rank
  exceeds the desired rank by \<open>rankDiff\<close>, the result keeps the element type and its shape
  is the sizes without their leading-most unit-sized dimensions, \<open>rankDiff\<close> of them or all
  of them if there are fewer: it drops \<open>min rankDiff u\<close> dimensions, \<open>u\<close> being the number of
  unit-sized dimensions. So it has the desired rank when there are at least \<open>rankDiff\<close>
  unit-sized dimensions. Sizes \<open>[1, 6, 1]\<close> reduced to rank 2 yield \<open>[6, 1]\<close>, not \<open>[1, 6]\<close>.
\<close>

theorem inferCanonicalRankReducedResultType_drops_leading_units:
  assumes "length staticSizes = length (getShape sourceType)"
    and "desiredResultRank < length staticSizes"
  shows "(\<exists>shape.
           ExtractSliceOp_inferCanonicalRankReducedResultType desiredResultRank sourceType
               staticOffsets staticSizes staticStrides
             = Inr (RankedTensorType shape (getElementType sourceType))
           \<and> shape = dropLeadingUnitDims (length staticSizes - desiredResultRank) staticSizes
           \<and> length shape
               = length staticSizes
                   - min (length staticSizes - desiredResultRank) (count_list staticSizes 1)
           \<and> (length staticSizes - desiredResultRank \<le> count_list staticSizes 1
                \<longrightarrow> length shape = desiredResultRank))
       \<and> ExtractSliceOp_inferCanonicalRankReducedResultType 2 (RankedTensorType [s0, s1, s2] ty)
               [o0, o1, o2] [1, 6, 1] [t0, t1, t2]
           = Inr (RankedTensorType [6, 1] ty)
       \<and> [6, 1] \<noteq> [1, 6 :: int]"
proof -
  have "ExtractSliceOp_inferCanonicalRankReducedResultType desiredResultRank sourceType
               staticOffsets staticSizes staticStrides
          = Inr (RankedTensorType
                   (dropLeadingUnitDims (length staticSizes - desiredResultRank) staticSizes)
                   (getElementType sourceType))"
    using assms
    by (auto simp: ExtractSliceOp_inferCanonicalRankReducedResultType_def
        ExtractSliceOp_inferResultType_def projectShape_getPositionsOfShapeOne Let_def
        nat_diff_distrib')
  moreover have "length staticSizes - desiredResultRank \<le> count_list staticSizes 1
      \<longrightarrow> length (dropLeadingUnitDims (length staticSizes - desiredResultRank) staticSizes)
            = desiredResultRank"
    using assms(2) by (auto simp: length_dropLeadingUnitDims)
  ultimately have general: "\<exists>shape.
           ExtractSliceOp_inferCanonicalRankReducedResultType desiredResultRank sourceType
               staticOffsets staticSizes staticStrides
             = Inr (RankedTensorType shape (getElementType sourceType))
           \<and> shape = dropLeadingUnitDims (length staticSizes - desiredResultRank) staticSizes
           \<and> length shape
               = length staticSizes
                   - min (length staticSizes - desiredResultRank) (count_list staticSizes 1)
           \<and> (length staticSizes - desiredResultRank \<le> count_list staticSizes 1
                \<longrightarrow> length shape = desiredResultRank)"
    by (simp add: length_dropLeadingUnitDims)
  have example: "ExtractSliceOp_inferCanonicalRankReducedResultType 2
               (RankedTensorType [s0, s1, s2] ty) [o0, o1, o2] [1, 6, 1] [t0, t1, t2]
           = Inr (RankedTensorType [6, 1] ty)"
    by (simp add: ExtractSliceOp_inferCanonicalRankReducedResultType_def
        ExtractSliceOp_inferResultType_def)
  have differ: "[6, 1] \<noteq> [1, 6 :: int]" by simp
  from general example differ show ?thesis by blast
qed

theorem inferCanonicalRankReducedResultType_drops_leading_units_witness:
  "length [1, 1, 6, 1 :: int] = length (getShape (RankedTensorType [8, 8, 8, 8] IndexType))
   \<and> (2::nat) < length [1, 1, 6, 1 :: int]
   \<and> length [1, 1, 6, 1 :: int] - 2 \<le> count_list [1, 1, 6, 1 :: int] 1
   \<and> ExtractSliceOp_inferCanonicalRankReducedResultType 2
          (RankedTensorType [8, 8, 8, 8] IndexType) [0, 0, 0, 0] [1, 1, 6, 1] [1, 1, 1, 1]
        = Inr (RankedTensorType [6, 1] IndexType)"
proof -
  have len: "length [1, 1, 6, 1 :: int] = length (getShape (RankedTensorType [8, 8, 8, 8] IndexType))"
    by simp
  have lt: "(2::nat) < length [1, 1, 6, 1 :: int]" by simp
  show ?thesis
    using inferCanonicalRankReducedResultType_drops_leading_units
            [OF len lt, of "[0, 0, 0, 0]" "[1, 1, 1, 1]"]
    by (simp add: numeral_2_eq_2)
qed

subsection \<open>Gather: inferred result types and the verifier\<close>













subsection \<open>Chained casts\<close>

lemma joinLoop_compatible:
  "list_all2 (\<lambda>a b. isDynamic a \<or> isDynamic b \<or> a = b) sa sb \<Longrightarrow> \<exists>js. joinLoop sa sb = Some js"
  by (induction sa sb rule: list_all2_induct) auto

lemma joinShapes_no_error:
  "getElementType a = getElementType b \<Longrightarrow> \<exists>j. joinShapes a b = Inr j"
  by (simp add: joinShapes_def)

lemma areCastCompatible_joinShapes:
  assumes "areCastCompatible [a] [b]"
  shows "\<exists>j. joinShapes a b = Inr (Some j) \<and> isTensorType j \<and> getElementType j = getElementType a"
proof -
  from assms have t: "isTensorType a" "isTensorType b" "getElementType a = getElementType b"
    and c: "verifyCompatibleShape a b = success"
    by (auto simp: areCastCompatible_def split: if_splits)
  show ?thesis
  proof (cases "hasRank a \<and> hasRank b")
    case True
    with c have "length (getShape a) = length (getShape b)"
      and "list_all2 (\<lambda>a b. isDynamic a \<or> isDynamic b \<or> a = b) (getShape a) (getShape b)"
      by (auto simp: verifyCompatibleShape_def split: if_splits)
    with joinLoop_compatible obtain js where "joinLoop (getShape a) (getShape b) = Some js" by blast
    with True t \<open>length (getShape a) = length (getShape b)\<close> show ?thesis
      by (simp add: joinShapes_def isTensorType_def)
  next
    case False
    with t show ?thesis by (auto simp: joinShapes_def)
  qed
qed

text \<open>
  C4. For a cast whose operand is produced by another cast, both casts being verified
  (\<open>areCastCompatible\<close>): the pattern succeeds and replaces the cast by one from the source
  of the inner cast to the result type if the join of the source and intermediate types
  joined with the result type exists and is the join of the source and result types;
  otherwise it reports no match and leaves the operations, the intermediate cast among
  them, unchanged.
\<close>

theorem ChainedTensorCast_collapses_iff_join_lossless:
  assumes inner: "getDefiningOp ir (cast_operand tensorCast) = Some (Cast tensorCastOperand)"
    and v1: "areCastCompatible [getType (cast_operand tensorCastOperand)]
               [cast_type tensorCastOperand]"
    and v2: "areCastCompatible [cast_type tensorCastOperand] [cast_type tensorCast]"
  shows "ChainedTensorCast_matchAndRewrite ir n tensorCast =
     (if \<exists>innerJoin firstJoin.
            joinShapes (getType (cast_operand tensorCastOperand)) (cast_type tensorCastOperand)
              = Inr (Some innerJoin)
            \<and> joinShapes innerJoin (cast_type tensorCast) = Inr (Some firstJoin)
            \<and> joinShapes (getType (cast_operand tensorCastOperand)) (cast_type tensorCast)
              = Inr (Some firstJoin)
      then Inr (success, ir[n := Cast \<lparr>cast_operand = cast_operand tensorCastOperand,
                                        cast_type = cast_type tensorCast\<rparr>])
      else Inr (failure, ir))"
proof -
  let ?s = "getType (cast_operand tensorCastOperand)"
  let ?i = "cast_type tensorCastOperand"
  let ?r = "cast_type tensorCast"
  from v1 v2 have t: "isTensorType ?s" "isTensorType ?i" "isTensorType ?r"
    and e: "getElementType ?s = getElementType ?i" "getElementType ?i = getElementType ?r"
    by (auto simp: areCastCompatible_def split: if_splits)
  from areCastCompatible_joinShapes [OF v1] obtain j where
    j: "joinShapes ?s ?i = Inr (Some j)" "getElementType j = getElementType ?s"
    by auto
  from j(2) e have "getElementType j = getElementType ?r" by simp
  then obtain fj where fj: "joinShapes j ?r = Inr fj"
    using joinShapes_no_error by blast
  from e obtain nj where nj: "joinShapes ?s ?r = Inr nj"
    using joinShapes_no_error [of ?s ?r] by auto
  show ?thesis
  proof (cases fj)
    case None
    with inner t j fj nj show ?thesis
      by (simp add: ChainedTensorCast_matchAndRewrite_def)
  next
    case (Some firstJoin)
    with inner t j fj nj show ?thesis
      by (auto simp: ChainedTensorCast_matchAndRewrite_def)
  qed
qed

theorem ChainedTensorCast_collapses_iff_join_lossless_witness:
  "getDefiningOp castChain (OpResult 0 (RankedTensorType [8, kDynamic] f32))
     = Some (Cast \<lparr>cast_operand = BlockArgument 0 (RankedTensorType [kDynamic, kDynamic] f32),
                    cast_type = RankedTensorType [8, kDynamic] f32\<rparr>)
   \<and> areCastCompatible [RankedTensorType [kDynamic, kDynamic] f32] [RankedTensorType [8, kDynamic] f32]
   \<and> areCastCompatible [RankedTensorType [8, kDynamic] f32] [RankedTensorType [8, 16] f32]
   \<and> ChainedTensorCast_matchAndRewrite castChain 1
        \<lparr>cast_operand = OpResult 0 (RankedTensorType [8, kDynamic] f32),
          cast_type = RankedTensorType [8, 16] f32\<rparr>
      = Inr (success,
             [Cast \<lparr>cast_operand = BlockArgument 0 (RankedTensorType [kDynamic, kDynamic] f32),
                    cast_type = RankedTensorType [8, kDynamic] f32\<rparr>,
              Cast \<lparr>cast_operand = BlockArgument 0 (RankedTensorType [kDynamic, kDynamic] f32),
                    cast_type = RankedTensorType [8, 16] f32\<rparr>])
   \<and> getDefiningOp castChainWithCheck (OpResult 0 (RankedTensorType [8, 16] f32))
     = Some (Cast \<lparr>cast_operand = BlockArgument 0 (RankedTensorType [kDynamic, kDynamic] f32),
                    cast_type = RankedTensorType [8, 16] f32\<rparr>)
   \<and> areCastCompatible [RankedTensorType [kDynamic, kDynamic] f32] [RankedTensorType [8, 16] f32]
   \<and> areCastCompatible [RankedTensorType [8, 16] f32] [RankedTensorType [8, kDynamic] f32]
   \<and> ChainedTensorCast_matchAndRewrite castChainWithCheck 1
        \<lparr>cast_operand = OpResult 0 (RankedTensorType [8, 16] f32),
          cast_type = RankedTensorType [8, kDynamic] f32\<rparr>
      = Inr (failure, castChainWithCheck)"
proof -
  let ?dd = "RankedTensorType [kDynamic, kDynamic] f32"
  let ?d8 = "RankedTensorType [8, kDynamic] f32"
  let ?s = "RankedTensorType [8, 16] f32"
  have d1: "getDefiningOp castChain (OpResult 0 ?d8)
              = Some (Cast \<lparr>cast_operand = BlockArgument 0 ?dd, cast_type = ?d8\<rparr>)"
    by (simp add: castChain_def)
  have d2: "getDefiningOp castChainWithCheck (OpResult 0 ?s)
              = Some (Cast \<lparr>cast_operand = BlockArgument 0 ?dd, cast_type = ?s\<rparr>)"
    by (simp add: castChainWithCheck_def)
  have c: "areCastCompatible [?dd] [?d8]" "areCastCompatible [?d8] [?s]"
    "areCastCompatible [?dd] [?s]" "areCastCompatible [?s] [?d8]"
    by (simp_all add: areCastCompatible_def verifyCompatibleShape_def isTensorType_def
        hasRank_def isDynamic_def kDynamic_def)
  have j: "joinShapes ?dd ?d8 = Inr (Some ?d8)" "joinShapes ?d8 ?s = Inr (Some ?s)"
    "joinShapes ?dd ?s = Inr (Some ?s)" "joinShapes ?s ?d8 = Inr (Some ?s)"
    by (simp_all add: joinShapes_def hasRank_def isDynamic_def kDynamic_def)
  have ne: "?s \<noteq> ?d8" by (simp add: kDynamic_def)
  from ChainedTensorCast_collapses_iff_join_lossless
         [of castChain "\<lparr>cast_operand = OpResult 0 ?d8, cast_type = ?s\<rparr>"
             "\<lparr>cast_operand = BlockArgument 0 ?dd, cast_type = ?d8\<rparr>" 1]
       d1 c j
  have r1: "ChainedTensorCast_matchAndRewrite castChain 1
              \<lparr>cast_operand = OpResult 0 ?d8, cast_type = ?s\<rparr>
            = Inr (success, castChain[1 := Cast \<lparr>cast_operand = BlockArgument 0 ?dd,
                                                  cast_type = ?s\<rparr>])"
    by simp
  from ChainedTensorCast_collapses_iff_join_lossless
         [of castChainWithCheck "\<lparr>cast_operand = OpResult 0 ?s, cast_type = ?d8\<rparr>"
             "\<lparr>cast_operand = BlockArgument 0 ?dd, cast_type = ?s\<rparr>" 1]
       d2 c j ne
  have r2: "ChainedTensorCast_matchAndRewrite castChainWithCheck 1
              \<lparr>cast_operand = OpResult 0 ?s, cast_type = ?d8\<rparr>
            = Inr (failure, castChainWithCheck)"
    by simp
  from r1 have r1': "ChainedTensorCast_matchAndRewrite castChain 1
              \<lparr>cast_operand = OpResult 0 ?d8, cast_type = ?s\<rparr>
            = Inr (success,
                   [Cast \<lparr>cast_operand = BlockArgument 0 ?dd, cast_type = ?d8\<rparr>,
                    Cast \<lparr>cast_operand = BlockArgument 0 ?dd, cast_type = ?s\<rparr>])"
    by (simp add: castChain_def)
  from d1 d2 c r1' r2 show ?thesis by simp
qed

subsection \<open>Folding an insertion\<close>

text \<open>
  C7, as stated, fails where an earlier case of \<open>InsertSliceOp::fold\<close> applies. Inserting
  the whole of the \<open>8x8\<close> tensor \<open>X\<close>, extracted with zero offsets and unit strides, back
  into \<open>X\<close> folds to the source of the insertion, the result of the extraction, not to
  \<open>X\<close>. And where \<open>X\<close> is itself the result of an insertion at the same place, the fold
  re-points the destination and returns the result of the insertion itself.
\<close>

theorem InsertSliceOp_fold_round_trip_not_dest:
  "InsertSliceOp_fold roundTripWhole 1
       (staticInsert (OpResult 0 (RankedTensorType [8, 8] f32))
          (BlockArgument 0 (RankedTensorType [8, 8] f32)) [0, 0] [8, 8])
     = (Some (Val (OpResult 0 (RankedTensorType [8, 8] f32))), roundTripWhole)
   \<and> OpResult 0 (RankedTensorType [8, 8] f32) \<noteq> BlockArgument 0 (RankedTensorType [8, 8] f32)
   \<and> fst (InsertSliceOp_fold roundTripOfInserted 2
              (staticInsert (OpResult 1 (RankedTensorType [4, 4] f32))
                 (OpResult 0 (RankedTensorType [8, 8] f32)) [2, 2] [4, 4]))
     = Some (Val (OpResult 2 (RankedTensorType [8, 8] f32)))
   \<and> OpResult 2 (RankedTensorType [8, 8] f32) \<noteq> OpResult 0 (RankedTensorType [8, 8] f32)"
  by (simp add: InsertSliceOp_fold_def roundTripWhole_def roundTripOfInserted_def
      staticInsert_def staticSlice_def f32_def hasStaticShape_def hasRank_def isDynamic_def
      kDynamic_def foldIdentityOffsetSizeAndStrideOpInterface_def getMixedOffsets_def
      getMixedSizes_def getMixedStrides_def getConstantIntValue_def
      foldInsertAfterInsertSlice_def isSameAs_def)

text \<open>
  C7, amended. When the source of an insertion is the result of an extraction, the source
  of the extraction is the destination \<open>X\<close> of the insertion and both have identical mixed
  offsets, sizes and strides, \<open>foldInsertAfterExtractSlice\<close> returns \<open>X\<close>; and
  \<open>InsertSliceOp::fold\<close> folds to \<open>X\<close>, leaving the operations unchanged, provided neither
  earlier case of the fold applies: the insertion is not an identity insertion (static
  source type equal to the result type, zero offsets, sizes equal to the shape, unit
  strides), and \<open>X\<close> is not produced by an insertion with the same source type and the same
  offsets, sizes and strides.
\<close>

theorem InsertSliceOp_fold_after_extract:
  assumes "getDefiningOp ir (insertSlice_source op) = Some (ExtractSlice extractOp)"
    and "extractSlice_source extractOp = insertSlice_dest op"
    and "isSameAs extractOp op"
  shows "foldInsertAfterExtractSlice ir op = Some (insertSlice_dest op)
       \<and> (\<not> (hasStaticShape (getType (insertSlice_source op))
              \<and> hasStaticShape (insertSlice_type op)
              \<and> getType (insertSlice_source op) = insertSlice_type op
              \<and> foldIdentityOffsetSizeAndStrideOpInterface ir op (insertSlice_type op) = success)
          \<and> \<not> (\<exists>prevInsertOp.
                getDefiningOp ir (insertSlice_dest op) = Some (InsertSlice prevInsertOp)
              \<and> getType (insertSlice_source prevInsertOp) = getType (insertSlice_source op)
              \<and> isSameAs prevInsertOp op)
          \<longrightarrow> InsertSliceOp_fold ir n op = (Some (Val (insertSlice_dest op)), ir))"
proof (intro conjI impI)
  from assms show e: "foldInsertAfterExtractSlice ir op = Some (insertSlice_dest op)"
    by (simp add: foldInsertAfterExtractSlice_def)
  assume h: "\<not> (hasStaticShape (getType (insertSlice_source op))
              \<and> hasStaticShape (insertSlice_type op)
              \<and> getType (insertSlice_source op) = insertSlice_type op
              \<and> foldIdentityOffsetSizeAndStrideOpInterface ir op (insertSlice_type op) = success)
          \<and> \<not> (\<exists>prevInsertOp.
                getDefiningOp ir (insertSlice_dest op) = Some (InsertSlice prevInsertOp)
              \<and> getType (insertSlice_source prevInsertOp) = getType (insertSlice_source op)
              \<and> isSameAs prevInsertOp op)"
  then have i: "\<not> (hasStaticShape (getType (insertSlice_source op))
              \<and> hasStaticShape (insertSlice_type op)
              \<and> getType (insertSlice_source op) = insertSlice_type op
              \<and> foldIdentityOffsetSizeAndStrideOpInterface ir op (insertSlice_type op) = success)"
    by (rule conjunct1)
  from h have "\<not> (\<exists>prevInsertOp.
                getDefiningOp ir (insertSlice_dest op) = Some (InsertSlice prevInsertOp)
              \<and> getType (insertSlice_source prevInsertOp) = getType (insertSlice_source op)
              \<and> isSameAs prevInsertOp op)"
    by (rule conjunct2)
  then have "foldInsertAfterInsertSlice ir op = (failure, op)"
    by (auto simp: foldInsertAfterInsertSlice_def split: option.splits Op.splits)
  with e show "InsertSliceOp_fold ir n op = (Some (Val (insertSlice_dest op)), ir)"
    unfolding InsertSliceOp_fold_def if_not_P [OF i] by simp
qed

theorem InsertSliceOp_fold_after_extract_witness:
  "getDefiningOp roundTripPart (OpResult 0 (RankedTensorType [4, 4] f32))
     = Some (ExtractSlice (staticSlice (BlockArgument 0 (RankedTensorType [8, 8] f32)) [2, 2] [4, 4]))
   \<and> isSameAs (staticSlice (BlockArgument 0 (RankedTensorType [8, 8] f32)) [2, 2] [4, 4])
        (staticInsert (OpResult 0 (RankedTensorType [4, 4] f32))
           (BlockArgument 0 (RankedTensorType [8, 8] f32)) [2, 2] [4, 4])
   \<and> InsertSliceOp_fold roundTripPart 1
        (staticInsert (OpResult 0 (RankedTensorType [4, 4] f32))
           (BlockArgument 0 (RankedTensorType [8, 8] f32)) [2, 2] [4, 4])
      = (Some (Val (BlockArgument 0 (RankedTensorType [8, 8] f32))), roundTripPart)"
proof -
  let ?X = "BlockArgument 0 (RankedTensorType [8, 8] f32)"
  let ?e = "staticSlice ?X [2, 2] [4, 4]"
  let ?i = "staticInsert (OpResult 0 (RankedTensorType [4, 4] f32)) ?X [2, 2] [4, 4]"
  have h1: "getDefiningOp roundTripPart (insertSlice_source ?i) = Some (ExtractSlice ?e)"
    by (simp add: roundTripPart_def staticInsert_def)
  have h2: "extractSlice_source ?e = insertSlice_dest ?i"
    by (simp add: staticInsert_def staticSlice_def)
  have h3: "isSameAs ?e ?i"
    by (simp add: isSameAs_def staticInsert_def staticSlice_def getMixedOffsets_def
        getMixedSizes_def getMixedStrides_def)
  have h4: "\<not> (hasStaticShape (getType (insertSlice_source ?i))
            \<and> hasStaticShape (insertSlice_type ?i)
            \<and> getType (insertSlice_source ?i) = insertSlice_type ?i
            \<and> foldIdentityOffsetSizeAndStrideOpInterface roundTripPart ?i (insertSlice_type ?i)
                = success)"
    by (simp add: staticInsert_def)
  have h5: "\<not> (\<exists>prevInsertOp.
              getDefiningOp roundTripPart (insertSlice_dest ?i) = Some (InsertSlice prevInsertOp)
            \<and> getType (insertSlice_source prevInsertOp) = getType (insertSlice_source ?i)
            \<and> isSameAs prevInsertOp ?i)"
    by (simp add: staticInsert_def)
  have d: "insertSlice_dest ?i = ?X" "insertSlice_source ?i = OpResult 0 (RankedTensorType [4, 4] f32)"
    by (simp_all add: staticInsert_def)
  from InsertSliceOp_fold_after_extract [OF h1 h2 h3, of 1] h4 h5
  have "InsertSliceOp_fold roundTripPart 1 ?i = (Some (Val (insertSlice_dest ?i)), roundTripPart)"
    by blast
  with h1 h3 d show ?thesis by simp
qed

text \<open>
  C10. When the destination of an insertion is produced by another insertion with the same
  source type and identical mixed offsets, sizes and strides, and the insertion is not an
  identity insertion (which folds to its source first), the fold returns the result of the
  insertion itself and updates the operation in place: its destination becomes the
  destination of the earlier insertion; its source, its static and dynamic offsets, sizes
  and strides and its result type are unchanged, and so is every other operation.
\<close>

theorem InsertSliceOp_fold_after_insert_frame:
  assumes "getDefiningOp ir (insertSlice_dest op) = Some (InsertSlice prevInsertOp)"
    and "getType (insertSlice_source prevInsertOp) = getType (insertSlice_source op)"
    and "isSameAs prevInsertOp op"
    and "\<not> (hasStaticShape (getType (insertSlice_source op))
            \<and> hasStaticShape (insertSlice_type op)
            \<and> getType (insertSlice_source op) = insertSlice_type op
            \<and> foldIdentityOffsetSizeAndStrideOpInterface ir op (insertSlice_type op) = success)"
  shows "\<exists>op'. InsertSliceOp_fold ir n op
              = (Some (Val (OpResult n (insertSlice_type op))), ir[n := InsertSlice op'])
          \<and> insertSlice_dest op' = insertSlice_dest prevInsertOp
          \<and> insertSlice_source op' = insertSlice_source op
          \<and> offsets op' = offsets op \<and> sizes op' = sizes op \<and> strides op' = strides op
          \<and> static_offsets op' = static_offsets op \<and> static_sizes op' = static_sizes op
          \<and> static_strides op' = static_strides op
          \<and> insertSlice_type op' = insertSlice_type op
          \<and> length (ir[n := InsertSlice op']) = length ir
          \<and> (\<forall>m. m \<noteq> n \<longrightarrow> ir[n := InsertSlice op'] ! m = ir ! m)"
proof -
  let ?op' = "op\<lparr>insertSlice_dest := insertSlice_dest prevInsertOp\<rparr>"
  from assms(1-3) have "foldInsertAfterInsertSlice ir op = (success, ?op')"
    by (simp add: foldInsertAfterInsertSlice_def)
  then have "InsertSliceOp_fold ir n op
              = (Some (Val (OpResult n (insertSlice_type op))), ir[n := InsertSlice ?op'])"
    unfolding InsertSliceOp_fold_def if_not_P [OF assms(4)] by simp
  then show ?thesis
    by (intro exI [of _ ?op']) simp
qed

theorem InsertSliceOp_fold_after_insert_frame_witness:
  "getDefiningOp twoInserts (OpResult 0 (RankedTensorType [8, 8] f32))
     = Some (InsertSlice (staticInsert (BlockArgument 1 (RankedTensorType [4, 4] f32))
                            (BlockArgument 0 (RankedTensorType [8, 8] f32)) [2, 2] [4, 4]))
   \<and> isSameAs (staticInsert (BlockArgument 1 (RankedTensorType [4, 4] f32))
                 (BlockArgument 0 (RankedTensorType [8, 8] f32)) [2, 2] [4, 4])
        (staticInsert (BlockArgument 2 (RankedTensorType [4, 4] f32))
           (OpResult 0 (RankedTensorType [8, 8] f32)) [2, 2] [4, 4])
   \<and> InsertSliceOp_fold twoInserts 1
        (staticInsert (BlockArgument 2 (RankedTensorType [4, 4] f32))
           (OpResult 0 (RankedTensorType [8, 8] f32)) [2, 2] [4, 4])
      = (Some (Val (OpResult 1 (RankedTensorType [8, 8] f32))),
         [InsertSlice (staticInsert (BlockArgument 1 (RankedTensorType [4, 4] f32))
                         (BlockArgument 0 (RankedTensorType [8, 8] f32)) [2, 2] [4, 4]),
          InsertSlice (staticInsert (BlockArgument 2 (RankedTensorType [4, 4] f32))
                         (BlockArgument 0 (RankedTensorType [8, 8] f32)) [2, 2] [4, 4])])"
proof -
  let ?Y = "BlockArgument 0 (RankedTensorType [8, 8] f32)"
  let ?p = "staticInsert (BlockArgument 1 (RankedTensorType [4, 4] f32)) ?Y [2, 2] [4, 4]"
  let ?i = "staticInsert (BlockArgument 2 (RankedTensorType [4, 4] f32))
              (OpResult 0 (RankedTensorType [8, 8] f32)) [2, 2] [4, 4]"
  have h1: "getDefiningOp twoInserts (insertSlice_dest ?i) = Some (InsertSlice ?p)"
    by (simp add: twoInserts_def staticInsert_def)
  have h2: "getType (insertSlice_source ?p) = getType (insertSlice_source ?i)"
    by (simp add: staticInsert_def)
  have h3: "isSameAs ?p ?i"
    by (simp add: isSameAs_def staticInsert_def getMixedOffsets_def getMixedSizes_def
        getMixedStrides_def)
  have h4: "\<not> (hasStaticShape (getType (insertSlice_source ?i))
            \<and> hasStaticShape (insertSlice_type ?i)
            \<and> getType (insertSlice_source ?i) = insertSlice_type ?i
            \<and> foldIdentityOffsetSizeAndStrideOpInterface twoInserts ?i (insertSlice_type ?i)
                = success)"
    by (simp add: staticInsert_def)
  from InsertSliceOp_fold_after_insert_frame [OF h1 h2 h3 h4, of 1]
  obtain op' where r: "InsertSliceOp_fold twoInserts 1 ?i
      = (Some (Val (OpResult 1 (insertSlice_type ?i))), twoInserts[1 := InsertSlice op'])"
    and f: "insertSlice_dest op' = insertSlice_dest ?p"
      "insertSlice_source op' = insertSlice_source ?i"
      "offsets op' = offsets ?i" "sizes op' = sizes ?i" "strides op' = strides ?i"
      "static_offsets op' = static_offsets ?i" "static_sizes op' = static_sizes ?i"
      "static_strides op' = static_strides ?i" "insertSlice_type op' = insertSlice_type ?i"
    by blast
  from f have "op' = staticInsert (BlockArgument 2 (RankedTensorType [4, 4] f32)) ?Y [2, 2] [4, 4]"
    by (cases op') (simp add: staticInsert_def)
  with r have "InsertSliceOp_fold twoInserts 1 ?i
      = (Some (Val (OpResult 1 (RankedTensorType [8, 8] f32))),
         [InsertSlice ?p,
          InsertSlice (staticInsert (BlockArgument 2 (RankedTensorType [4, 4] f32)) ?Y [2, 2] [4, 4])])"
    by (simp add: twoInserts_def staticInsert_def)
  moreover from h1 have "getDefiningOp twoInserts (OpResult 0 (RankedTensorType [8, 8] f32))
     = Some (InsertSlice ?p)"
    by (simp add: staticInsert_def)
  ultimately show ?thesis using h3 by simp
qed

subsection \<open>Fusing orthogonal paddings\<close>




































end
